theory Spec2Isabelle
  imports Main
begin

section \<open>Data model of the multicast core\<close>

text \<open>
  A shallow embedding of \<^verbatim>\<open>MulticastGroup\<close> (multicast\_group.cpp). The class is a
  record, every member function takes the group and returns the updated group, and every
  \<^verbatim>\<open>assert\<close> and every out-of-range read of a \<^verbatim>\<open>std::vector\<close> is an error
  value. The cells of the shared state table are \<^verbatim>\<open>long long int\<close> in the source;
  they are unbounded integers here. The casts to \<^verbatim>\<open>int\<close> that the source applies
  before it compares against a cell are 32-bit truncations and are written out.
\<close>

type_synonym node_id = nat
type_synonym subgroup_id = nat

datatype error = Assertion_failed | Out_of_range | Division_by_zero

text \<open>The C cast \<^verbatim>\<open>(int)x\<close> of a 64-bit value: two's complement truncation to 32 bits.\<close>

definition to_int32 :: "int \<Rightarrow> int" where
  "to_int32 x = (x + 2147483648) mod 4294967296 - 2147483648"

text \<open>
  Modelled from the spec: the \<^verbatim>\<open>header\<close> struct of multicast\_group.h, which is
  the prefix of every message: \<open>header_size\<close>, \<open>pause_sending_turns\<close> (an unsigned
  count) and the \<open>cooked_send\<close> flag.
\<close>

record header =
  header_size :: nat
  pause_sending_turns :: nat
  cooked_send :: bool

text \<open>
  A \<^verbatim>\<open>MessageBuffer\<close> owns a byte region; only its capacity and the header stored at
  its start are observed by the code modelled here. \<^verbatim>\<open>MessageBuffer(0)\<close> is the
  empty buffer of a placeholder message.
\<close>

record MessageBuffer =
  buffer_capacity :: nat
  buffer_header :: header

definition empty_header :: header where
  "empty_header = \<lparr>header_size = 0, pause_sending_turns = 0, cooked_send = False\<rparr>"

definition new_MessageBuffer :: "nat \<Rightarrow> MessageBuffer" where
  "new_MessageBuffer n = \<lparr>buffer_capacity = n, buffer_header = empty_header\<rparr>"

record Message =
  sender_rank :: nat
  index :: int
  msg_size :: nat
  message_buffer :: MessageBuffer

text \<open>
  Modelled from the spec: the descriptor \<^verbatim>\<open>persistence::message\<close> handed to the file
  writer, whose declaration is not part of the sources. Its fields are the values that
  \<^verbatim>\<open>deliver_message\<close> lists (the pointer to the payload is left out) and the member
  \<^verbatim>\<open>subgroup_num\<close> that the completion callback reads.
\<close>

record persistence_message =
  pm_length :: nat
  pm_view_id :: nat
  pm_sender :: node_id
  pm_index :: int
  pm_cooked :: bool
  pm_subgroup_num :: subgroup_id

record DerechoSST =
  num_received :: "nat \<Rightarrow> nat \<Rightarrow> int"
  seq_num :: "nat \<Rightarrow> nat \<Rightarrow> int"
  stable_num :: "nat \<Rightarrow> nat \<Rightarrow> int"
  delivered_num :: "nat \<Rightarrow> nat \<Rightarrow> int"
  persisted_num :: "nat \<Rightarrow> nat \<Rightarrow> int"
  vid :: "nat \<Rightarrow> nat"

datatype sst_field = Num_received | Seq_num | Stable_num | Delivered_num | Persisted_num

datatype pred_kind = Stability_pred | Delivery_pred | Sender_pred

text \<open>
  What the group does to its collaborators, in program order: a publication of one SST
  cell to a list of rows, a callback into the host, a wake-up of the sender loop, a call
  into the block transport.
\<close>

datatype effect =
    Sst_put "nat list" sst_field nat
  | Global_stability_callback subgroup_id nat int nat
  | Rpc_callback node_id nat
  | Local_persistence_callback subgroup_id nat int nat
  | Sender_cv_notify_all
  | Rdmc_send nat nat
  | Rdmc_destroy_group nat
  | Sender_thread_join

subsection \<open>Ordered maps\<close>

text \<open>
  A \<^verbatim>\<open>std::map\<close> is an association list with one entry per key. \<open>map_begin\<close> is
  \<^verbatim>\<open>begin()\<close>, the entry with the least key; \<open>map_entries\<close> is the iteration order.
\<close>

definition map_find :: "'k \<Rightarrow> ('k \<times> 'v) list \<Rightarrow> 'v option" where
  "map_find k m = map_of m k"

definition map_erase :: "'k \<Rightarrow> ('k \<times> 'v) list \<Rightarrow> ('k \<times> 'v) list" where
  "map_erase k m = filter (\<lambda>p. fst p \<noteq> k) m"

text \<open>\<^verbatim>\<open>m[k] = v\<close>: overwrites.\<close>

definition map_assign :: "'k \<Rightarrow> 'v \<Rightarrow> ('k \<times> 'v) list \<Rightarrow> ('k \<times> 'v) list" where
  "map_assign k v m = (k, v) # map_erase k m"

text \<open>\<^verbatim>\<open>m.emplace(k, v)\<close>: keeps an entry that is already there.\<close>

definition map_emplace :: "'k \<Rightarrow> 'v \<Rightarrow> ('k \<times> 'v) list \<Rightarrow> ('k \<times> 'v) list" where
  "map_emplace k v m = (case map_find k m of None \<Rightarrow> (k, v) # m | Some _ \<Rightarrow> m)"

fun map_begin :: "('k::linorder \<times> 'v) list \<Rightarrow> ('k \<times> 'v) option" where
  "map_begin [] = None"
| "map_begin (p # m) =
     (case map_begin m of
        None \<Rightarrow> Some p
      | Some q \<Rightarrow> if fst p \<le> fst q then Some p else Some q)"

definition map_entries :: "('k::linorder \<times> 'v) list \<Rightarrow> ('k \<times> 'v) list" where
  "map_entries m = sort_key fst m"

subsection \<open>The group\<close>

text \<open>
  The members of the class that the modelled functions read or write. \<open>num_subgroups\<close>,
  \<open>num_shards\<close> and \<open>subgroup_membership\<close> are the functions of
  \<^verbatim>\<open>subgroup_info\<close>, supplied by the host, applied to the members of the view.
  \<open>rdmc_groups\<close> is the registry of the block transport: the number of every
  group created for this view with the values captured by its callbacks (an
  \<open>rdmc_closure\<close>). \<open>subgroup_to_send\<close> is the local variable of the sender loop. \<open>sizeof_header\<close> is the compile-time constant \<^verbatim>\<open>sizeof(header)\<close>.
  \<open>file_writer\<close> is \<open>None\<close> without persistence, and otherwise holds the records
  handed to the writer whose completion is outstanding, oldest first. \<open>predicates\<close>
  is the predicate registry of the SST: handle, kind and subgroup of every registered
  predicate. \<open>trace\<close> collects the effects on the collaborators.
\<close>

record rdmc_closure =
  cl_subgroup :: subgroup_id
  cl_shard :: nat
  cl_sender_rank :: nat
  cl_node_id :: node_id
  cl_num_shard_members :: nat
  cl_subgroup_offset :: nat

record MulticastGroup =
  members :: "node_id list"
  member_index :: nat
  max_msg_size :: nat
  window_size :: nat
  sizeof_header :: nat
  num_subgroups :: nat
  num_shards :: "subgroup_id \<Rightarrow> nat"
  subgroup_membership :: "subgroup_id \<Rightarrow> nat \<Rightarrow> node_id list"
  node_id_to_sst_index :: "(node_id \<times> nat) list"
  subgroup_to_shard_n_index :: "(subgroup_id \<times> nat \<times> nat) list"
  subgroup_to_num_received_offset :: "(subgroup_id \<times> nat) list"
  subgroup_to_rdmc_group :: "(subgroup_id \<times> nat) list"
  rdmc_group_num_offset :: nat
  future_message_indices :: "int list"
  next_sends :: "Message option list"
  pending_sends :: "Message list list"
  current_sends :: "Message option list"
  next_message_to_deliver :: "int list"
  free_message_buffers :: "subgroup_id \<Rightarrow> MessageBuffer list"
  current_receives :: "((subgroup_id \<times> int) \<times> Message) list"
  locally_stable_messages :: "subgroup_id \<Rightarrow> (int \<times> Message) list"
  non_persistent_messages :: "subgroup_id \<Rightarrow> (int \<times> Message) list"
  file_writer :: "persistence_message list option"
  rdmc_groups_created :: bool
  thread_shutdown :: bool
  sst :: DerechoSST
  predicates :: "(nat \<times> pred_kind \<times> subgroup_id) list"
  stability_pred_handle :: nat
  delivery_pred_handle :: nat
  sender_pred_handle :: nat
  rdmc_groups :: "(nat \<times> rdmc_closure) list"
  subgroup_to_send :: nat
  trace :: "effect list"

text \<open>\<^verbatim>\<open>num_members\<close> is the constant \<^verbatim>\<open>members.size()\<close>.\<close>

definition num_members :: "MulticastGroup \<Rightarrow> nat" where
  "num_members grp = length (members grp)"

text \<open>\<^verbatim>\<open>operator[]\<close> of a \<^verbatim>\<open>std::map\<close> read on a missing key gives the zero value.\<close>

definition map_at :: "'k \<Rightarrow> ('k \<times> 'v::zero) list \<Rightarrow> 'v" where
  "map_at k m = (case map_find k m of None \<Rightarrow> 0 | Some v \<Rightarrow> v)"

definition shard_n_index :: "MulticastGroup \<Rightarrow> subgroup_id \<Rightarrow> nat \<times> nat" where
  "shard_n_index grp g =
     (case map_find g (subgroup_to_shard_n_index grp) of None \<Rightarrow> (0, 0) | Some p \<Rightarrow> p)"

definition shard_members_of :: "MulticastGroup \<Rightarrow> subgroup_id \<Rightarrow> node_id list" where
  "shard_members_of grp g = subgroup_membership grp g (fst (shard_n_index grp g))"

definition sst_index :: "MulticastGroup \<Rightarrow> node_id \<Rightarrow> nat" where
  "sst_index grp n = map_at n (node_id_to_sst_index grp)"

definition get_shard_sst_indices :: "MulticastGroup \<Rightarrow> subgroup_id \<Rightarrow> nat list" where
  "get_shard_sst_indices grp g = map (sst_index grp) (shard_members_of grp g)"

definition sst_put :: "MulticastGroup \<Rightarrow> subgroup_id \<Rightarrow> sst_field \<Rightarrow> nat \<Rightarrow> MulticastGroup" where
  "sst_put grp g f col = grp\<lparr>trace := trace grp @ [Sst_put (get_shard_sst_indices grp g) f col]\<rparr>"

section \<open>Send-side entry points\<close>

text \<open>
  The bound of the window check,
  \<^verbatim>\<open>(int)((idx - window_size) * num_shard_members + shard_index)\<close>.
\<close>

definition window_floor :: "MulticastGroup \<Rightarrow> subgroup_id \<Rightarrow> int \<Rightarrow> int" where
  "window_floor grp g idx =
     to_int32 ((idx - int (window_size grp)) * int (length (shard_members_of grp g))
               + int (snd (shard_n_index grp g)))"

text \<open>
  \<^verbatim>\<open>get_sendbuffer_ptr\<close>. The result is the offset, in the buffer of the staged
  message, of the returned pointer; \<open>None\<close> is the null pointer. \<open>payload_size\<close> is
  an unsigned 64-bit value, so the size of the message wraps at \<open>2^64\<close>. The header field
  \<open>pause_sending_turns\<close> is unsigned and receives an \<^verbatim>\<open>int\<close>.
\<close>

definition get_sendbuffer_ptr ::
  "MulticastGroup \<Rightarrow> subgroup_id \<Rightarrow> nat \<Rightarrow> int \<Rightarrow> bool \<Rightarrow> error + (nat option \<times> MulticastGroup)" where
  "get_sendbuffer_ptr grp subgroup_num payload_size pause cooked =
     (if \<not> rdmc_groups_created grp then Inr (None, grp)
      else
        let msg_size0 = (if payload_size = 0 then max_msg_size grp
                         else (payload_size + sizeof_header grp) mod 2 ^ 64)
        in if msg_size0 > max_msg_size grp then Inr (None, grp)
        else
          let shard_index = snd (shard_n_index grp subgroup_num);
              shard_members = shard_members_of grp subgroup_num
          in if shard_members \<noteq> [] \<and> \<not> subgroup_num < length (future_message_indices grp)
             then Inl Out_of_range
          else if \<exists>m \<in> set shard_members.
                    delivered_num (sst grp) (sst_index grp m) subgroup_num
                      < window_floor grp subgroup_num (future_message_indices grp ! subgroup_num)
             then Inr (None, grp)
          else if thread_shutdown grp then Inr (None, grp)
          else if free_message_buffers grp subgroup_num = [] then Inr (None, grp)
          else if \<not> subgroup_num < length (future_message_indices grp)
                  \<or> \<not> subgroup_num < length (next_sends grp) then Inl Out_of_range
          else
            let buf = last (free_message_buffers grp subgroup_num);
                buf' = buf\<lparr>buffer_header :=
                          \<lparr>header_size = sizeof_header grp,
                           pause_sending_turns = nat (pause mod 4294967296),
                           cooked_send = cooked\<rparr>\<rparr>;
                msg = \<lparr>sender_rank = shard_index,
                       index = future_message_indices grp ! subgroup_num,
                       msg_size = msg_size0,
                       message_buffer = buf'\<rparr>
            in Inr (Some (sizeof_header grp),
                    grp\<lparr>free_message_buffers := (free_message_buffers grp)
                            (subgroup_num := butlast (free_message_buffers grp subgroup_num)),
                        next_sends := (next_sends grp)[subgroup_num := Some msg],
                        future_message_indices := (future_message_indices grp)
                            [subgroup_num := future_message_indices grp ! subgroup_num + (pause + 1)]\<rparr>))"

text \<open>\<^verbatim>\<open>send\<close>.\<close>

definition send :: "MulticastGroup \<Rightarrow> subgroup_id \<Rightarrow> error + (bool \<times> MulticastGroup)" where
  "send grp subgroup_num =
     (if thread_shutdown grp \<or> \<not> rdmc_groups_created grp then Inr (False, grp)
      else if \<not> subgroup_num < length (next_sends grp) then Inl Out_of_range
      else case next_sends grp ! subgroup_num of
        None \<Rightarrow> Inl Assertion_failed
      | Some msg \<Rightarrow>
          if \<not> subgroup_num < length (pending_sends grp) then Inl Out_of_range
          else Inr (True,
                 grp\<lparr>pending_sends := (pending_sends grp)
                         [subgroup_num := pending_sends grp ! subgroup_num @ [msg]],
                     next_sends := (next_sends grp)[subgroup_num := None],
                     trace := trace grp @ [Sender_cv_notify_all]\<rparr>))"

section \<open>Receive path\<close>

text \<open>
  \<^verbatim>\<open>std::min_element\<close> over a non-empty range: the position of the first least
  element.
\<close>

fun min_element_from :: "int \<Rightarrow> nat \<Rightarrow> nat \<Rightarrow> int list \<Rightarrow> nat" where
  "min_element_from bv bi i [] = bi"
| "min_element_from bv bi i (x # xs) =
     (if x < bv then min_element_from x i (Suc i) xs else min_element_from bv bi (Suc i) xs)"

definition min_element :: "int list \<Rightarrow> nat" where
  "min_element xs = (case xs of [] \<Rightarrow> 0 | x # rest \<Rightarrow> min_element_from x 0 1 rest)"

definition bump_num_received :: "nat \<Rightarrow> MulticastGroup \<Rightarrow> MulticastGroup" where
  "bump_num_received col grp =
     grp\<lparr>sst := (sst grp)\<lparr>num_received := (num_received (sst grp))
        (member_index grp := (num_received (sst grp) (member_index grp))
           (col := num_received (sst grp) (member_index grp) col + 1))\<rparr>\<rparr>"

text \<open>
  The destination callback of a group in which this node receives: it takes a free buffer
  and records the pending message under \<open>(subgroup, sequence number)\<close>.
\<close>

definition receive_destination :: "rdmc_closure \<Rightarrow> nat \<Rightarrow> MulticastGroup \<Rightarrow> error + MulticastGroup" where
  "receive_destination cl len grp =
     (let i = cl_subgroup cl; k = cl_sender_rank cl
      in if free_message_buffers grp i = [] then Inl Assertion_failed
         else
           let msg = \<lparr>sender_rank = k,
                      index = num_received (sst grp) (member_index grp) (cl_subgroup_offset cl + k) + 1,
                      msg_size = len,
                      message_buffer = last (free_message_buffers grp i)\<rparr>;
               sequence_number = index msg * int (cl_num_shard_members cl) + int k
           in Inr (grp\<lparr>free_message_buffers := (free_message_buffers grp)
                          (i := butlast (free_message_buffers grp i)),
                       current_receives := map_assign (i, sequence_number) msg (current_receives grp)\<rparr>))"

text \<open>
  The first half of \<^verbatim>\<open>rdmc_receive_handler\<close>, after the counter was bumped: the
  message moves from \<open>current_sends\<close> (this node sent it) or from \<open>current_receives\<close>
  into \<open>locally_stable_messages\<close>. A received message carries the bytes that the transport
  wrote into its buffer, of which \<open>h\<close> is the header.
\<close>

definition move_to_locally_stable ::
  "rdmc_closure \<Rightarrow> header \<Rightarrow> int \<Rightarrow> MulticastGroup \<Rightarrow> error + MulticastGroup" where
  "move_to_locally_stable cl h sequence_number grp =
     (let i = cl_subgroup cl
      in if \<not> member_index grp < length (members grp) then Inl Out_of_range
         else if cl_node_id cl = members grp ! member_index grp then
           (if \<not> i < length (current_sends grp) then Inl Out_of_range
            else case current_sends grp ! i of
              None \<Rightarrow> Inl Assertion_failed
            | Some msg \<Rightarrow>
                Inr (grp\<lparr>locally_stable_messages := (locally_stable_messages grp)
                            (i := map_assign sequence_number msg (locally_stable_messages grp i)),
                         current_sends := (current_sends grp)[i := None]\<rparr>))
         else
           (case map_find (i, sequence_number) (current_receives grp) of
              None \<Rightarrow> Inl Assertion_failed
            | Some msg \<Rightarrow>
                Inr (grp\<lparr>locally_stable_messages := (locally_stable_messages grp)
                            (i := map_emplace sequence_number
                                    (msg\<lparr>message_buffer := (message_buffer msg)\<lparr>buffer_header := h\<rparr>\<rparr>)
                                    (locally_stable_messages grp i)),
                         current_receives := map_erase (i, sequence_number) (current_receives grp)\<rparr>)))"

text \<open>The loop over \<open>pause_sending_turns\<close>: one zero-size placeholder per skipped turn.\<close>

fun add_placeholders ::
  "rdmc_closure \<Rightarrow> nat \<Rightarrow> int \<Rightarrow> int \<Rightarrow> MulticastGroup \<Rightarrow> MulticastGroup" where
  "add_placeholders cl 0 idx sequence_number grp = grp"
| "add_placeholders cl (Suc n) idx sequence_number grp =
     (let idx' = idx + 1;
          sequence_number' = sequence_number + int (cl_num_shard_members cl);
          grp1 = bump_num_received (cl_subgroup_offset cl + cl_sender_rank cl) grp;
          grp2 = grp1\<lparr>locally_stable_messages := (locally_stable_messages grp1)
                   (cl_subgroup cl := map_assign sequence_number'
                      \<lparr>sender_rank = cl_sender_rank cl, index = idx', msg_size = 0,
                       message_buffer = new_MessageBuffer 0\<rparr>
                      (locally_stable_messages grp1 (cl_subgroup cl)))\<rparr>
      in add_placeholders cl n idx' sequence_number' grp2)"

text \<open>
  \<^verbatim>\<open>new_seq_num = (*min_ptr + 1) * num_shard_members + min_index - 1\<close>, over the
  \<open>num_shard_members\<close> cells of this node's row that start at \<open>subgroup_offset\<close>.
\<close>

definition received_cells :: "rdmc_closure \<Rightarrow> MulticastGroup \<Rightarrow> int list" where
  "received_cells cl grp =
     map (num_received (sst grp) (member_index grp))
         [cl_subgroup_offset cl ..< cl_subgroup_offset cl + cl_num_shard_members cl]"

definition new_seq_num :: "rdmc_closure \<Rightarrow> MulticastGroup \<Rightarrow> int" where
  "new_seq_num cl grp =
     (let cells = received_cells cl grp; min_index = min_element cells
      in (cells ! min_index + 1) * int (cl_num_shard_members cl) + int min_index - 1)"

text \<open>
  The last part of the handler. The comparison is made on \<^verbatim>\<open>(int)new_seq_num\<close>; the
  cell receives \<open>new_seq_num\<close> itself.
\<close>

definition update_seq_num :: "rdmc_closure \<Rightarrow> MulticastGroup \<Rightarrow> error + MulticastGroup" where
  "update_seq_num cl grp =
     (let i = cl_subgroup cl; col = cl_subgroup_offset cl + cl_sender_rank cl
      in if cl_num_shard_members cl = 0 then Inl Out_of_range
         else if to_int32 (new_seq_num cl grp) > seq_num (sst grp) (member_index grp) i then
           (let grp1 = grp\<lparr>sst := (sst grp)\<lparr>seq_num := (seq_num (sst grp))
                         (member_index grp := (seq_num (sst grp) (member_index grp))
                            (i := new_seq_num cl grp))\<rparr>\<rparr>
            in Inr (sst_put (sst_put grp1 i Seq_num i) i Num_received col))
         else Inr (sst_put grp i Num_received col))"

definition rdmc_receive_handler :: "rdmc_closure \<Rightarrow> header \<Rightarrow> MulticastGroup \<Rightarrow> error + MulticastGroup" where
  "rdmc_receive_handler cl h grp =
     (let col = cl_subgroup_offset cl + cl_sender_rank cl;
          grp1 = bump_num_received col grp;
          idx = num_received (sst grp1) (member_index grp1) col;
          sequence_number = idx * int (cl_num_shard_members cl) + int (cl_sender_rank cl)
      in case move_to_locally_stable cl h sequence_number grp1 of
           Inl e \<Rightarrow> Inl e
         | Inr grp2 \<Rightarrow>
             update_seq_num cl
               (add_placeholders cl (pause_sending_turns h) idx sequence_number grp2))"

text \<open>The handler registered for the group in which this node sends also wakes the sender loop.\<close>

definition receive_handler_plus_notify ::
  "rdmc_closure \<Rightarrow> header \<Rightarrow> MulticastGroup \<Rightarrow> error + MulticastGroup" where
  "receive_handler_plus_notify cl h grp =
     (case rdmc_receive_handler cl h grp of
        Inl e \<Rightarrow> Inl e
      | Inr grp' \<Rightarrow> Inr (grp'\<lparr>trace := trace grp' @ [Sender_cv_notify_all]\<rparr>))"

section \<open>Stability and delivery\<close>

text \<open>The loop that computes the least value of a column over the rows of the shard.\<close>

fun min_loop :: "int \<Rightarrow> int list \<Rightarrow> int" where
  "min_loop m [] = m"
| "min_loop m (v # vs) = min_loop (if v < m then v else m) vs"

definition shard_min :: "(nat \<Rightarrow> int) \<Rightarrow> nat list \<Rightarrow> int" where
  "shard_min column rows = min_loop (column (hd rows)) (map column rows)"

definition shard_rows :: "MulticastGroup \<Rightarrow> node_id list \<Rightarrow> nat list" where
  "shard_rows grp shard_members = map (sst_index grp) shard_members"

text \<open>
  \<^verbatim>\<open>stability_trig\<close>, with the values it captured: the subgroup and the members of
  the shard.
\<close>

definition stability_trig :: "subgroup_id \<Rightarrow> node_id list \<Rightarrow> MulticastGroup \<Rightarrow> error + MulticastGroup" where
  "stability_trig subgroup_num shard_members grp =
     (if shard_members = [] then Inl Out_of_range
      else
        let min_seq_num = shard_min (\<lambda>row. seq_num (sst grp) row subgroup_num)
                            (shard_rows grp shard_members)
        in if min_seq_num > stable_num (sst grp) (member_index grp) subgroup_num then
             Inr (sst_put
                    (grp\<lparr>sst := (sst grp)\<lparr>stable_num := (stable_num (sst grp))
                       (member_index grp := (stable_num (sst grp) (member_index grp))
                          (subgroup_num := min_seq_num))\<rparr>\<rparr>)
                    subgroup_num Stable_num subgroup_num)
           else Inr grp)"

text \<open>
  \<^verbatim>\<open>deliver_message\<close>. The payload size of a cooked message is an unsigned
  difference. The record handed to the writer names the sender by its node id,
  \<^verbatim>\<open>members[msg.sender_rank]\<close>. Its initialiser lists six values, none of them the
  subgroup: the member \<^verbatim>\<open>subgroup_num\<close> is value-initialised, to 0.
\<close>

definition deliver_message :: "Message \<Rightarrow> subgroup_id \<Rightarrow> MulticastGroup \<Rightarrow> error + MulticastGroup" where
  "deliver_message msg subgroup_num grp =
     (if msg_size msg > 0 then
        let h = buffer_header (message_buffer msg)
        in if (cooked_send h \<or> file_writer grp \<noteq> None)
              \<and> \<not> sender_rank msg < length (members grp) then Inl Out_of_range
           else
             let grp1 =
                   (if cooked_send h then
                      grp\<lparr>trace := trace grp @
                            [Rpc_callback (members grp ! sender_rank msg)
                               ((msg_size msg + 2 ^ 64 - header_size h) mod 2 ^ 64)]\<rparr>
                    else
                      grp\<lparr>trace := trace grp @
                            [Global_stability_callback subgroup_num (sender_rank msg)
                               (index msg) (msg_size msg)]\<rparr>)
             in case file_writer grp1 of
                  Some queue \<Rightarrow>
                    let msg_for_filewriter =
                          \<lparr>pm_length = msg_size msg,
                           pm_view_id = vid (sst grp1) (member_index grp1),
                           pm_sender = members grp1 ! sender_rank msg,
                           pm_index = index msg,
                           pm_cooked = cooked_send h,
                           pm_subgroup_num = 0\<rparr>;
                        sequence_number = index msg * int (num_members grp1) + int (sender_rank msg)
                    in Inr (grp1\<lparr>non_persistent_messages := (non_persistent_messages grp1)
                                   (subgroup_num := map_emplace sequence_number msg
                                      (non_persistent_messages grp1 subgroup_num)),
                                 file_writer := Some (queue @ [msg_for_filewriter])\<rparr>)
                | None \<Rightarrow>
                    Inr (grp1\<lparr>free_message_buffers := (free_message_buffers grp1)
                                (subgroup_num := free_message_buffers grp1 subgroup_num
                                                   @ [message_buffer msg])\<rparr>)
      else Inr grp)"

text \<open>\<^verbatim>\<open>delivery_trig\<close>, with the values it captured.\<close>

definition delivery_trig :: "subgroup_id \<Rightarrow> node_id list \<Rightarrow> MulticastGroup \<Rightarrow> error + MulticastGroup" where
  "delivery_trig subgroup_num shard_members grp =
     (if shard_members = [] then Inl Out_of_range
      else
        let min_stable_num = shard_min (\<lambda>row. stable_num (sst grp) row subgroup_num)
                               (shard_rows grp shard_members)
        in case map_begin (locally_stable_messages grp subgroup_num) of
             None \<Rightarrow> Inr grp
           | Some (least_undelivered_seq_num, msg) \<Rightarrow>
               if least_undelivered_seq_num \<le> min_stable_num then
                 (case deliver_message msg subgroup_num grp of
                    Inl e \<Rightarrow> Inl e
                  | Inr grp1 \<Rightarrow>
                      let grp2 = sst_put
                            (grp1\<lparr>sst := (sst grp1)\<lparr>delivered_num := (delivered_num (sst grp1))
                               (member_index grp1 := (delivered_num (sst grp1) (member_index grp1))
                                  (subgroup_num := least_undelivered_seq_num))\<rparr>\<rparr>)
                            subgroup_num Delivered_num subgroup_num
                      in Inr (grp2\<lparr>locally_stable_messages := (locally_stable_messages grp2)
                                     (subgroup_num := map_erase least_undelivered_seq_num
                                        (locally_stable_messages grp2 subgroup_num))\<rparr>))
               else Inr grp)"

section \<open>Persistence bridge\<close>

text \<open>The helper \<^verbatim>\<open>index_of\<close>: the position of the first occurrence, or the size.\<close>

fun index_of :: "'a list \<Rightarrow> 'a \<Rightarrow> nat" where
  "index_of [] e = 0"
| "index_of (x # xs) e = (if x = e then 0 else Suc (index_of xs e))"

text \<open>
  The callback made by \<^verbatim>\<open>make_file_written_callback\<close>, called by the writer with the
  record \<open>m\<close> it has written. Its search for the rank of the sender is the loop of
  \<open>index_of\<close> over the members.
\<close>

definition file_written_callback :: "persistence_message \<Rightarrow> MulticastGroup \<Rightarrow> error + MulticastGroup" where
  "file_written_callback m grp =
     (let sender_rank = index_of (members grp) (pm_sender m);
          g = pm_subgroup_num m;
          grp1 = grp\<lparr>trace := trace grp @
                   [Local_persistence_callback g sender_rank (pm_index m) (pm_length m)]\<rparr>;
          sequence_number = pm_index m * int (num_members grp1) + int sender_rank
      in case map_find sequence_number (non_persistent_messages grp1 g) of
           None \<Rightarrow> Inl Assertion_failed
         | Some m_msg \<Rightarrow>
             Inr (sst_put
                    (grp1\<lparr>free_message_buffers := (free_message_buffers grp1)
                             (g := free_message_buffers grp1 g @ [message_buffer m_msg]),
                          non_persistent_messages := (non_persistent_messages grp1)
                             (g := map_erase sequence_number (non_persistent_messages grp1 g)),
                          sst := (sst grp1)\<lparr>persisted_num := (persisted_num (sst grp1))
                             (member_index grp1 := (persisted_num (sst grp1) (member_index grp1))
                                (g := sequence_number))\<rparr>\<rparr>)
                    g Persisted_num g))"

text \<open>
  Modelled from the spec: the file writer, which is not part of the sources. Records are
  appended in delivery order and the completion callback runs once per record, in that
  order.
\<close>

definition file_writer_completion :: "MulticastGroup \<Rightarrow> error + MulticastGroup" where
  "file_writer_completion grp =
     (case file_writer grp of
        Some (m # queue) \<Rightarrow> file_written_callback m (grp\<lparr>file_writer := Some queue\<rparr>)
      | _ \<Rightarrow> Inr grp)"

section \<open>Sender loop\<close>

text \<open>The lambda \<^verbatim>\<open>should_send_to_subgroup\<close> of \<^verbatim>\<open>send_loop\<close>.\<close>

definition should_send_to_subgroup :: "MulticastGroup \<Rightarrow> subgroup_id \<Rightarrow> error + bool" where
  "should_send_to_subgroup grp subgroup_num =
     (if \<not> rdmc_groups_created grp then Inr False
      else if \<not> subgroup_num < length (pending_sends grp) then Inl Out_of_range
      else if pending_sends grp ! subgroup_num = [] then Inr False
      else
        let msg = hd (pending_sends grp ! subgroup_num)
        in if num_received (sst grp) (member_index grp)
                (map_at subgroup_num (subgroup_to_num_received_offset grp)) < index msg - 1
           then Inr False
           else
             let shard_members = shard_members_of grp subgroup_num
             in if \<not> length shard_members > 1 then Inl Assertion_failed
                else if \<exists>m \<in> set shard_members.
                          delivered_num (sst grp) (sst_index grp m) subgroup_num
                            < window_floor grp subgroup_num (index msg)
                          \<or> (file_writer grp \<noteq> None
                              \<and> persisted_num (sst grp) (sst_index grp m) subgroup_num
                                  < window_floor grp subgroup_num (index msg))
                     then Inr False
                else Inr True)"

text \<open>
  The lambda \<^verbatim>\<open>should_send\<close>: round robin from the subgroup after the last one
  served. The result is the subgroup found, which becomes \<open>subgroup_to_send\<close>.
\<close>

fun should_send_loop :: "MulticastGroup \<Rightarrow> nat list \<Rightarrow> error + nat option" where
  "should_send_loop grp [] = Inr None"
| "should_send_loop grp (i # is) =
     (let candidate = (subgroup_to_send grp + i) mod num_subgroups grp
      in case should_send_to_subgroup grp candidate of
           Inl e \<Rightarrow> Inl e
         | Inr True \<Rightarrow> Inr (Some candidate)
         | Inr False \<Rightarrow> should_send_loop grp is)"

definition should_send :: "MulticastGroup \<Rightarrow> error + nat option" where
  "should_send grp = should_send_loop grp [1 ..< Suc (num_subgroups grp)]"

text \<open>
  One evaluation of the wait condition of \<^verbatim>\<open>send_loop\<close> and, when it holds, the body
  of the loop. \<open>send_ok\<close> is the result of \<^verbatim>\<open>rdmc::send\<close>; when it is false the
  loop throws and ends.
\<close>

datatype loop_outcome =
    Loop_shutdown
  | Loop_waiting
  | Loop_sent subgroup_id MulticastGroup
  | Loop_send_failed MulticastGroup

definition send_loop_iteration :: "bool \<Rightarrow> MulticastGroup \<Rightarrow> error + loop_outcome" where
  "send_loop_iteration send_ok grp =
     (if thread_shutdown grp then Inr Loop_shutdown
      else case should_send grp of
        Inl e \<Rightarrow> Inl e
      | Inr None \<Rightarrow> Inr Loop_waiting
      | Inr (Some g) \<Rightarrow>
          if \<not> g < length (current_sends grp) then Inl Out_of_range
          else
            let msg = hd (pending_sends grp ! g);
                grp1 = grp\<lparr>subgroup_to_send := g,
                           current_sends := (current_sends grp)[g := Some msg],
                           trace := trace grp @
                             [Rdmc_send (map_at g (subgroup_to_rdmc_group grp)) (msg_size msg)]\<rparr>
            in if \<not> send_ok then Inr (Loop_send_failed grp1)
               else Inr (Loop_sent g
                      (grp1\<lparr>pending_sends := (pending_sends grp1)[g := tl (pending_sends grp1 ! g)]\<rparr>)))"

section \<open>Predicates and wedge\<close>

text \<open>
  Modelled from the spec: the predicate registry of the SST, which is not part of the
  sources. A registration returns a fresh handle; a removal takes the predicate with that
  handle out.
\<close>

definition fresh_handle :: "(nat \<times> pred_kind \<times> subgroup_id) list \<Rightarrow> nat" where
  "fresh_handle ps = Suc (foldr max (map fst ps) 0)"

definition predicates_insert ::
  "pred_kind \<Rightarrow> subgroup_id \<Rightarrow> (nat \<times> pred_kind \<times> subgroup_id) list
   \<Rightarrow> nat \<times> (nat \<times> pred_kind \<times> subgroup_id) list" where
  "predicates_insert kind g ps = (fresh_handle ps, ps @ [(fresh_handle ps, kind, g)])"

definition predicates_remove ::
  "nat \<Rightarrow> (nat \<times> pred_kind \<times> subgroup_id) list \<Rightarrow> (nat \<times> pred_kind \<times> subgroup_id) list" where
  "predicates_remove h ps = filter (\<lambda>p. fst p \<noteq> h) ps"

text \<open>
  \<^verbatim>\<open>register_predicates\<close>: for every subgroup of this node, three registrations, each
  handle stored in the one member of the class for its kind.
\<close>

definition register_subgroup_predicates :: "subgroup_id \<Rightarrow> MulticastGroup \<Rightarrow> MulticastGroup" where
  "register_subgroup_predicates subgroup_num grp =
     (let (h1, ps1) = predicates_insert Stability_pred subgroup_num (predicates grp);
          (h2, ps2) = predicates_insert Delivery_pred subgroup_num ps1;
          (h3, ps3) = predicates_insert Sender_pred subgroup_num ps2
      in grp\<lparr>stability_pred_handle := h1, delivery_pred_handle := h2,
             sender_pred_handle := h3, predicates := ps3\<rparr>)"

definition register_predicates :: "MulticastGroup \<Rightarrow> MulticastGroup" where
  "register_predicates grp =
     fold register_subgroup_predicates (map fst (map_entries (subgroup_to_shard_n_index grp))) grp"

text \<open>\<^verbatim>\<open>rdmc::destroy_group\<close> takes the group with that number out of the registry.\<close>

definition destroy_group :: "nat \<Rightarrow> MulticastGroup \<Rightarrow> MulticastGroup" where
  "destroy_group n grp =
     grp\<lparr>rdmc_groups := filter (\<lambda>p. fst p \<noteq> n) (rdmc_groups grp),
         trace := trace grp @ [Rdmc_destroy_group n]\<rparr>"

definition wedge :: "MulticastGroup \<Rightarrow> MulticastGroup" where
  "wedge grp =
     (if thread_shutdown grp then grp
      else
        let grp1 = grp\<lparr>thread_shutdown := True\<rparr>;
            grp2 = grp1\<lparr>predicates :=
                     predicates_remove (sender_pred_handle grp1)
                       (predicates_remove (delivery_pred_handle grp1)
                          (predicates_remove (stability_pred_handle grp1) (predicates grp1)))\<rparr>;
            grp3 = fold (\<lambda>i. destroy_group (i + rdmc_group_num_offset grp2))
                     [0 ..< num_members grp2] grp2
        in grp3\<lparr>trace := trace grp3 @ [Sender_cv_notify_all, Sender_thread_join]\<rparr>)"

text \<open>
  \<^verbatim>\<open>sender_pred\<close> and \<^verbatim>\<open>sender_trig\<close>, the third predicate of a subgroup.
\<close>

definition sender_pred :: "subgroup_id \<Rightarrow> node_id list \<Rightarrow> nat \<Rightarrow> MulticastGroup \<Rightarrow> error + bool" where
  "sender_pred subgroup_num shard_members shard_index grp =
     (if \<not> subgroup_num < length (next_message_to_deliver grp) then Inl Out_of_range
      else
        let seq = next_message_to_deliver grp ! subgroup_num * int (length shard_members)
                    + int shard_index
        in Inr (\<not> (\<exists>m \<in> set shard_members.
                     delivered_num (sst grp) (sst_index grp m) subgroup_num < seq
                     \<or> (file_writer grp \<noteq> None
                         \<and> persisted_num (sst grp) (sst_index grp m) subgroup_num < seq))))"

definition sender_trig :: "subgroup_id \<Rightarrow> MulticastGroup \<Rightarrow> MulticastGroup" where
  "sender_trig subgroup_num grp =
     grp\<lparr>trace := trace grp @ [Sender_cv_notify_all],
         next_message_to_deliver := (next_message_to_deliver grp)
           [subgroup_num := next_message_to_deliver grp ! subgroup_num + 1]\<rparr>"

section \<open>Transport groups\<close>

text \<open>
  \<^verbatim>\<open>create_rdmc_groups\<close>. \<open>create_ok\<close> is the answer of \<^verbatim>\<open>rdmc::create_group\<close>
  for a group number. The three loops are over the subgroups, the shards of a subgroup
  and the senders of a shard; a refused creation ends all three with \<open>False\<close>.
\<close>

fun create_groups_for_senders ::
  "(nat \<Rightarrow> bool) \<Rightarrow> subgroup_id \<Rightarrow> nat \<Rightarrow> node_id list \<Rightarrow> nat \<Rightarrow> nat list
   \<Rightarrow> MulticastGroup \<Rightarrow> bool \<times> MulticastGroup" where
  "create_groups_for_senders create_ok i j shard_members subgroup_offset [] grp = (True, grp)"
| "create_groups_for_senders create_ok i j shard_members subgroup_offset (k # ks) grp =
     (if length shard_members \<le> 1
      then create_groups_for_senders create_ok i j shard_members subgroup_offset ks grp
      else if \<not> create_ok (rdmc_group_num_offset grp) then (False, grp)
      else
        let cl = \<lparr>cl_subgroup = i, cl_shard = j, cl_sender_rank = k,
                  cl_node_id = shard_members ! k,
                  cl_num_shard_members = length shard_members,
                  cl_subgroup_offset = subgroup_offset\<rparr>;
            grp1 = grp\<lparr>rdmc_groups := rdmc_groups grp @ [(rdmc_group_num_offset grp, cl)]\<rparr>;
            grp2 = (if shard_members ! k = members grp ! member_index grp
                    then grp1\<lparr>subgroup_to_rdmc_group :=
                           map_assign i (rdmc_group_num_offset grp) (subgroup_to_rdmc_group grp1)\<rparr>
                    else grp1)
        in create_groups_for_senders create_ok i j shard_members subgroup_offset ks
             (grp2\<lparr>rdmc_group_num_offset := rdmc_group_num_offset grp + 1\<rparr>))"

fun create_groups_for_shards ::
  "(nat \<Rightarrow> bool) \<Rightarrow> subgroup_id \<Rightarrow> nat \<Rightarrow> nat list \<Rightarrow> nat
   \<Rightarrow> MulticastGroup \<Rightarrow> bool \<times> nat \<times> MulticastGroup" where
  "create_groups_for_shards create_ok i subgroup_offset [] max_shard_members grp =
     (True, max_shard_members, grp)"
| "create_groups_for_shards create_ok i subgroup_offset (j # js) max_shard_members grp =
     (let shard_members = subgroup_membership grp i j;
          max_shard_members' = (if max_shard_members < length shard_members
                                then length shard_members else max_shard_members)
      in if members grp ! member_index grp \<in> set shard_members then
           (let grp1 = grp\<lparr>subgroup_to_num_received_offset :=
                          map_assign i (subgroup_offset + snd (shard_n_index grp i))
                            (subgroup_to_num_received_offset grp)\<rparr>
            in case create_groups_for_senders create_ok i j shard_members subgroup_offset
                      [0 ..< length shard_members] grp1 of
                 (False, grp2) \<Rightarrow> (False, max_shard_members', grp2)
               | (True, grp2) \<Rightarrow>
                   create_groups_for_shards create_ok i subgroup_offset js max_shard_members' grp2)
         else create_groups_for_shards create_ok i subgroup_offset js max_shard_members' grp)"

fun create_groups_for_subgroups ::
  "(nat \<Rightarrow> bool) \<Rightarrow> nat list \<Rightarrow> nat \<Rightarrow> MulticastGroup \<Rightarrow> bool \<times> MulticastGroup" where
  "create_groups_for_subgroups create_ok [] subgroup_offset grp = (True, grp)"
| "create_groups_for_subgroups create_ok (i # is) subgroup_offset grp =
     (case create_groups_for_shards create_ok i subgroup_offset [0 ..< num_shards grp i] 0 grp of
        (False, max_shard_members, grp1) \<Rightarrow> (False, grp1)
      | (True, max_shard_members, grp1) \<Rightarrow>
          create_groups_for_subgroups create_ok is (subgroup_offset + max_shard_members) grp1)"

definition create_rdmc_groups :: "(nat \<Rightarrow> bool) \<Rightarrow> MulticastGroup \<Rightarrow> bool \<times> MulticastGroup" where
  "create_rdmc_groups create_ok grp =
     create_groups_for_subgroups create_ok [0 ..< num_subgroups grp] 0 grp"

section \<open>View handover\<close>

text \<open>
  The lambda \<^verbatim>\<open>convert_msg\<close> of the handover constructor: the message gets this node's
  rank and the next free index of the new group.
\<close>

definition convert_msg :: "Message \<Rightarrow> subgroup_id \<Rightarrow> MulticastGroup \<Rightarrow> Message \<times> MulticastGroup" where
  "convert_msg msg subgroup_num grp =
     (msg\<lparr>sender_rank := member_index grp, index := future_message_indices grp ! subgroup_num\<rparr>,
      grp\<lparr>future_message_indices := (future_message_indices grp)
            [subgroup_num := future_message_indices grp ! subgroup_num + 1
               + int (pause_sending_turns (buffer_header (message_buffer msg)))]\<rparr>)"

definition push_pending :: "subgroup_id \<Rightarrow> Message \<times> MulticastGroup \<Rightarrow> MulticastGroup" where
  "push_pending subgroup_num p =
     (snd p)\<lparr>pending_sends := (pending_sends (snd p))
        [subgroup_num := pending_sends (snd p) ! subgroup_num @ [fst p]]\<rparr>"

definition emplace_non_persistent :: "subgroup_id \<Rightarrow> int \<Rightarrow> Message \<times> MulticastGroup \<Rightarrow> MulticastGroup" where
  "emplace_non_persistent subgroup_num key p =
     (snd p)\<lparr>non_persistent_messages := (non_persistent_messages (snd p))
        (subgroup_num := map_emplace key (fst p) (non_persistent_messages (snd p) subgroup_num))\<rparr>"

text \<open>
  The body of the loop ``any messages that were being sent should be re-attempted'' for
  one subgroup of the new group \<open>grp\<close>, reading and emptying the old group \<open>old\<close>. Its last
  statement is \<^verbatim>\<open>old_group.non_persistent_messages.clear()\<close>, which empties the map of
  every subgroup.
\<close>

definition requeue_subgroup ::
  "subgroup_id \<Rightarrow> MulticastGroup \<times> MulticastGroup \<Rightarrow> error + (MulticastGroup \<times> MulticastGroup)" where
  "requeue_subgroup subgroup_num p =
     (let grp = fst p; old = snd p
      in if \<not> subgroup_num < length (future_message_indices grp)
            \<or> \<not> subgroup_num < length (pending_sends grp)
            \<or> \<not> subgroup_num < length (next_sends grp) then Inl Out_of_range
         else
           let grp1 = (if length (current_sends old) > subgroup_num then
                         (case current_sends old ! subgroup_num of
                            None \<Rightarrow> grp
                          | Some msg \<Rightarrow> push_pending subgroup_num (convert_msg msg subgroup_num grp))
                       else grp);
               grp2 = (if length (pending_sends old) > subgroup_num then
                         fold (\<lambda>msg gr. push_pending subgroup_num (convert_msg msg subgroup_num gr))
                           (pending_sends old ! subgroup_num) grp1
                       else grp1);
               old1 = (if length (pending_sends old) > subgroup_num then
                         old\<lparr>pending_sends := (pending_sends old)[subgroup_num := []]\<rparr>
                       else old);
               grp3 = (if length (next_sends old1) > subgroup_num then
                         (case next_sends old1 ! subgroup_num of
                            None \<Rightarrow> grp2
                          | Some msg \<Rightarrow>
                              (let q = convert_msg msg subgroup_num grp2
                               in (snd q)\<lparr>next_sends := (next_sends (snd q))
                                     [subgroup_num := Some (fst q)]\<rparr>))
                       else grp2);
               grp4 = fold (\<lambda>entry gr. emplace_non_persistent subgroup_num (fst entry)
                                         (convert_msg (snd entry) subgroup_num gr))
                        (map_entries (non_persistent_messages old1 subgroup_num)) grp3;
               old2 = old1\<lparr>non_persistent_messages := (\<lambda>g. [])\<rparr>
           in Inr (grp4, old2))"

fun requeue_loop ::
  "subgroup_id list \<Rightarrow> MulticastGroup \<times> MulticastGroup \<Rightarrow> error + (MulticastGroup \<times> MulticastGroup)" where
  "requeue_loop [] p = Inr p"
| "requeue_loop (g # gs) p =
     (case requeue_subgroup g p of Inl e \<Rightarrow> Inl e | Inr p' \<Rightarrow> requeue_loop gs p')"

definition requeue_old_sends ::
  "MulticastGroup \<Rightarrow> MulticastGroup \<Rightarrow> error + (MulticastGroup \<times> MulticastGroup)" where
  "requeue_old_sends grp old =
     requeue_loop (map fst (map_entries (subgroup_to_shard_n_index grp))) (grp, old)"

section \<open>Construction\<close>

text \<open>
  The arguments of the first constructor: the members of the view, this node, the
  parameters of \<^verbatim>\<open>DerechoParams\<close> (\<open>gp_persistent\<close> says that the file name is not
  empty), the functions of \<^verbatim>\<open>subgroup_info\<close>, the vector \<open>already_failed\<close>, the SST
  made by the membership service with its predicate registry, and the answers of the
  transport to \<^verbatim>\<open>create_group\<close>.
\<close>

record group_params =
  gp_members :: "node_id list"
  gp_my_node_id :: node_id
  gp_max_payload_size :: nat
  gp_block_size :: nat
  gp_window_size :: nat
  gp_persistent :: bool
  gp_sizeof_header :: nat
  gp_num_subgroups :: nat
  gp_num_shards :: "subgroup_id \<Rightarrow> nat"
  gp_subgroup_membership :: "subgroup_id \<Rightarrow> nat \<Rightarrow> node_id list"
  gp_already_failed :: "bool list"
  gp_sst :: DerechoSST
  gp_predicates :: "(nat \<times> pred_kind \<times> subgroup_id) list"
  gp_create_ok :: "nat \<Rightarrow> bool"

definition compute_max_msg_size :: "nat \<Rightarrow> nat \<Rightarrow> nat \<Rightarrow> nat" where
  "compute_max_msg_size sizeof_hdr max_payload_size block_size =
     (let m = (max_payload_size + sizeof_hdr) mod 2 ^ 64
      in if m mod block_size \<noteq> 0 then ((m div block_size + 1) * block_size) mod 2 ^ 64 else m)"

text \<open>The loops that find, for every subgroup, the shard of this node and its rank there.\<close>

definition find_shards :: "MulticastGroup \<Rightarrow> MulticastGroup" where
  "find_shards grp =
     fold (\<lambda>i gr.
             fold (\<lambda>j gr'.
                     if members gr' ! member_index gr' \<in> set (subgroup_membership gr' i j)
                     then gr'\<lparr>subgroup_to_shard_n_index :=
                            map_assign i (j, index_of (subgroup_membership gr' i j)
                                               (members gr' ! member_index gr'))
                              (subgroup_to_shard_n_index gr')\<rparr>
                     else gr')
                  [0 ..< num_shards gr i] gr)
          [0 ..< num_subgroups grp] grp"

definition fill_free_message_buffers :: "MulticastGroup \<Rightarrow> MulticastGroup" where
  "fill_free_message_buffers grp =
     fold (\<lambda>p gr.
             let n = window_size gr * length (subgroup_membership gr (fst p) (fst (snd p)))
             in gr\<lparr>free_message_buffers := (free_message_buffers gr)
                    (fst p := free_message_buffers gr (fst p)
                       @ replicate (n - length (free_message_buffers gr (fst p)))
                           (new_MessageBuffer (max_msg_size gr)))\<rparr>)
          (map_entries (subgroup_to_shard_n_index grp)) grp"

text \<open>\<^verbatim>\<open>initialize_sst_row\<close>: every counter of every member's row becomes \<open>-1\<close>.\<close>

definition initialize_sst_row :: "MulticastGroup \<Rightarrow> MulticastGroup" where
  "initialize_sst_row grp =
     (let reset = (\<lambda>field row col. if row < num_members grp then - 1 else field row col)
      in grp\<lparr>sst := (sst grp)\<lparr>num_received := reset (num_received (sst grp)),
                               seq_num := reset (seq_num (sst grp)),
                               stable_num := reset (stable_num (sst grp)),
                               delivered_num := reset (delivered_num (sst grp)),
                               persisted_num := reset (persisted_num (sst grp))\<rparr>\<rparr>)"

fun no_member_failed_loop :: "bool list \<Rightarrow> nat list \<Rightarrow> error + bool" where
  "no_member_failed_loop already_failed [] = Inr True"
| "no_member_failed_loop already_failed (i # is) =
     (if \<not> i < length already_failed then Inl Out_of_range
      else if already_failed ! i then Inr False
      else no_member_failed_loop already_failed is)"

definition create_groups_unless_failed ::
  "bool list \<Rightarrow> (nat \<Rightarrow> bool) \<Rightarrow> MulticastGroup \<Rightarrow> error + MulticastGroup" where
  "create_groups_unless_failed already_failed create_ok grp =
     (case (if already_failed \<noteq> [] then no_member_failed_loop already_failed [0 ..< num_members grp]
            else Inr True) of
        Inl e \<Rightarrow> Inl e
      | Inr no_member_failed \<Rightarrow>
          if already_failed = [] \<or> no_member_failed then
            (let r = create_rdmc_groups create_ok grp
             in Inr ((snd r)\<lparr>rdmc_groups_created := fst r\<rparr>))
          else Inr grp)"

text \<open>
  The first constructor. This node has to be a member of the view: the membership loops
  read \<^verbatim>\<open>members[member_index]\<close>.
\<close>

definition new_group :: "group_params \<Rightarrow> error + MulticastGroup" where
  "new_group ps =
     (if gp_block_size ps = 0 then Inl Division_by_zero
      else if \<not> gp_window_size ps \<ge> 1 then Inl Assertion_failed
      else if \<not> index_of (gp_members ps) (gp_my_node_id ps) < length (gp_members ps)
      then Inl Out_of_range
      else
        let grp0 =
              \<lparr>members = gp_members ps,
               member_index = index_of (gp_members ps) (gp_my_node_id ps),
               max_msg_size = compute_max_msg_size (gp_sizeof_header ps)
                                (gp_max_payload_size ps) (gp_block_size ps),
               window_size = gp_window_size ps,
               sizeof_header = gp_sizeof_header ps,
               num_subgroups = gp_num_subgroups ps,
               num_shards = gp_num_shards ps,
               subgroup_membership = gp_subgroup_membership ps,
               node_id_to_sst_index =
                 fold (\<lambda>i m. map_assign (gp_members ps ! i) i m) [0 ..< length (gp_members ps)] [],
               subgroup_to_shard_n_index = [],
               subgroup_to_num_received_offset = [],
               subgroup_to_rdmc_group = [],
               rdmc_group_num_offset = 0,
               future_message_indices = replicate (gp_num_subgroups ps) 0,
               next_sends = replicate (gp_num_subgroups ps) None,
               pending_sends = replicate (gp_num_subgroups ps) [],
               current_sends = replicate (gp_num_subgroups ps) None,
               next_message_to_deliver = replicate (gp_num_subgroups ps) 0,
               free_message_buffers = (\<lambda>g. []),
               current_receives = [],
               locally_stable_messages = (\<lambda>g. []),
               non_persistent_messages = (\<lambda>g. []),
               file_writer = (if gp_persistent ps then Some [] else None),
               rdmc_groups_created = False,
               thread_shutdown = False,
               sst = gp_sst ps,
               predicates = gp_predicates ps,
               stability_pred_handle = 0,
               delivery_pred_handle = 0,
               sender_pred_handle = 0,
               rdmc_groups = [],
               subgroup_to_send = 0,
               trace = []\<rparr>;
            grp1 = initialize_sst_row (fill_free_message_buffers (find_shards grp0))
        in case create_groups_unless_failed (gp_already_failed ps) (gp_create_ok ps) grp1 of
             Inl e \<Rightarrow> Inl e
           | Inr grp2 \<Rightarrow> Inr (register_predicates grp2))"

section \<open>Runs of one node\<close>

text \<open>
  The calls that reach a group between its construction and its wedge: the two entry
  points of the host, a wake-up of the sender loop (with a transport that accepts the
  send), the two callbacks of the transport for a group number, the trigger of a registered
  predicate, the completion of the oldest outstanding write, and a write by another node
  into its own row of the SST. The transport hands the sender's own buffer to the
  completion callback of the group in which this node sends. An event that names no
  registered group or predicate, or arguments outside their C types, changes nothing.
\<close>

datatype event =
    Get_sendbuffer_ptr subgroup_id nat nat bool
  | Send subgroup_id
  | Sender_wakeup
  | Rdmc_destination nat nat
  | Rdmc_completion nat header
  | Predicate_trigger nat
  | File_written
  | Remote_write nat sst_field nat int

definition sst_write :: "nat \<Rightarrow> sst_field \<Rightarrow> nat \<Rightarrow> int \<Rightarrow> DerechoSST \<Rightarrow> DerechoSST" where
  "sst_write row f col v t =
     (case f of
        Num_received \<Rightarrow> t\<lparr>num_received := (num_received t)(row := (num_received t row)(col := v))\<rparr>
      | Seq_num \<Rightarrow> t\<lparr>seq_num := (seq_num t)(row := (seq_num t row)(col := v))\<rparr>
      | Stable_num \<Rightarrow> t\<lparr>stable_num := (stable_num t)(row := (stable_num t row)(col := v))\<rparr>
      | Delivered_num \<Rightarrow> t\<lparr>delivered_num := (delivered_num t)(row := (delivered_num t row)(col := v))\<rparr>
      | Persisted_num \<Rightarrow> t\<lparr>persisted_num := (persisted_num t)(row := (persisted_num t row)(col := v))\<rparr>)"

definition own_header :: "rdmc_closure \<Rightarrow> header \<Rightarrow> MulticastGroup \<Rightarrow> header" where
  "own_header cl h grp =
     (if cl_subgroup cl < length (current_sends grp) then
        (case current_sends grp ! cl_subgroup cl of
           None \<Rightarrow> h
         | Some msg \<Rightarrow> buffer_header (message_buffer msg))
      else h)"

definition predicate_step :: "pred_kind \<Rightarrow> subgroup_id \<Rightarrow> MulticastGroup \<Rightarrow> error + MulticastGroup" where
  "predicate_step kind g grp =
     (case kind of
        Stability_pred \<Rightarrow> stability_trig g (shard_members_of grp g) grp
      | Delivery_pred \<Rightarrow> delivery_trig g (shard_members_of grp g) grp
      | Sender_pred \<Rightarrow>
          (case sender_pred g (shard_members_of grp g) (snd (shard_n_index grp g)) grp of
             Inl e \<Rightarrow> Inl e
           | Inr True \<Rightarrow> Inr (sender_trig g grp)
           | Inr False \<Rightarrow> Inr grp))"

definition step :: "MulticastGroup \<Rightarrow> event \<Rightarrow> error + MulticastGroup" where
  "step grp ev =
     (case ev of
        Get_sendbuffer_ptr g payload_size pause cooked \<Rightarrow>
          if payload_size < 2 ^ 64 \<and> pause < 2 ^ 31 then
            (case get_sendbuffer_ptr grp g payload_size (int pause) cooked of
               Inl e \<Rightarrow> Inl e | Inr r \<Rightarrow> Inr (snd r))
          else Inr grp
      | Send g \<Rightarrow> (case send grp g of Inl e \<Rightarrow> Inl e | Inr r \<Rightarrow> Inr (snd r))
      | Sender_wakeup \<Rightarrow>
          (case send_loop_iteration True grp of
             Inl e \<Rightarrow> Inl e
           | Inr (Loop_sent g grp') \<Rightarrow> Inr grp'
           | Inr _ \<Rightarrow> Inr grp)
      | Rdmc_destination n len \<Rightarrow>
          (case map_find n (rdmc_groups grp) of
             None \<Rightarrow> Inr grp
           | Some cl \<Rightarrow>
               if cl_node_id cl = members grp ! member_index grp then Inl Assertion_failed
               else receive_destination cl len grp)
      | Rdmc_completion n h \<Rightarrow>
          (case map_find n (rdmc_groups grp) of
             None \<Rightarrow> Inr grp
           | Some cl \<Rightarrow>
               if cl_node_id cl = members grp ! member_index grp
               then receive_handler_plus_notify cl (own_header cl h grp) grp
               else rdmc_receive_handler cl h grp)
      | Predicate_trigger handle \<Rightarrow>
          (case map_find handle (predicates grp) of
             None \<Rightarrow> Inr grp
           | Some (kind, g) \<Rightarrow> predicate_step kind g grp)
      | File_written \<Rightarrow> file_writer_completion grp
      | Remote_write row f col v \<Rightarrow>
          if row = member_index grp then Inr grp
          else Inr (grp\<lparr>sst := sst_write row f col v (sst grp)\<rparr>))"

fun run :: "MulticastGroup \<Rightarrow> event list \<Rightarrow> error + MulticastGroup" where
  "run grp [] = Inr grp"
| "run grp (ev # evs) = (case step grp ev of Inl e \<Rightarrow> Inl e | Inr grp' \<Rightarrow> run grp' evs)"

section \<open>Example states\<close>

text \<open>
  A view of three nodes \<open>0, 1, 2\<close> with one subgroup whose only shard is \<open>[0, 1]\<close>, seen
  from node \<open>0\<close>: window size 4, messages of at most 4096 bytes, a header of 9 bytes.
  \<open>example_group\<close> is the group right after its construction.
\<close>

definition example_sst :: DerechoSST where
  "example_sst = \<lparr>num_received = (\<lambda>row col. - 1), seq_num = (\<lambda>row col. - 1),
     stable_num = (\<lambda>row col. - 1), delivered_num = (\<lambda>row col. - 1),
     persisted_num = (\<lambda>row col. - 1), vid = (\<lambda>row. 0)\<rparr>"

definition example_group :: MulticastGroup where
  "example_group =
     \<lparr>members = [0, 1, 2], member_index = 0, max_msg_size = 4096, window_size = 4,
      sizeof_header = 9, num_subgroups = 1, num_shards = (\<lambda>g. 1),
      subgroup_membership = (\<lambda>g j. [0, 1]),
      node_id_to_sst_index = [(2, 2), (1, 1), (0, 0)],
      subgroup_to_shard_n_index = [(0, 0, 0)],
      subgroup_to_num_received_offset = [(0, 0)],
      subgroup_to_rdmc_group = [(0, 0)],
      rdmc_group_num_offset = 2,
      future_message_indices = [0], next_sends = [None], pending_sends = [[]],
      current_sends = [None], next_message_to_deliver = [0],
      free_message_buffers = (\<lambda>g. [])(0 := replicate 8 (new_MessageBuffer 4096)),
      current_receives = [], locally_stable_messages = (\<lambda>g. []),
      non_persistent_messages = (\<lambda>g. []), file_writer = None,
      rdmc_groups_created = True, thread_shutdown = False, sst = example_sst,
      predicates = [(1, Stability_pred, 0), (2, Delivery_pred, 0), (3, Sender_pred, 0)],
      stability_pred_handle = 1, delivery_pred_handle = 2, sender_pred_handle = 3,
      rdmc_groups =
        [(0, \<lparr>cl_subgroup = 0, cl_shard = 0, cl_sender_rank = 0, cl_node_id = 0,
               cl_num_shard_members = 2, cl_subgroup_offset = 0\<rparr>),
         (1, \<lparr>cl_subgroup = 0, cl_shard = 0, cl_sender_rank = 1, cl_node_id = 1,
               cl_num_shard_members = 2, cl_subgroup_offset = 0\<rparr>)],
      subgroup_to_send = 0, trace = []\<rparr>"

text \<open>A raw message of 64 payload bytes from rank \<open>r\<close> with index \<open>i\<close>.\<close>

definition example_message :: "nat \<Rightarrow> int \<Rightarrow> Message" where
  "example_message r i = \<lparr>sender_rank = r, index = i, msg_size = 73,
     message_buffer = \<lparr>buffer_capacity = 4096,
       buffer_header = \<lparr>header_size = 9, pause_sending_turns = 0, cooked_send = False\<rparr>\<rparr>\<rparr>"

text \<open>The callbacks of the two transport groups of the example and a header without pause.\<close>

definition example_closure :: "nat \<Rightarrow> rdmc_closure" where
  "example_closure k = \<lparr>cl_subgroup = 0, cl_shard = 0, cl_sender_rank = k, cl_node_id = k,
     cl_num_shard_members = 2, cl_subgroup_offset = 0\<rparr>"

definition example_header :: header where
  "example_header = \<lparr>header_size = 9, pause_sending_turns = 0, cooked_send = False\<rparr>"

text \<open>
  Persistence is on, every node has delivered up to sequence number 2, nothing is
  persisted yet, and the next index to hand out is 5.
\<close>

definition persisted_lag_group :: MulticastGroup where
  "persisted_lag_group = example_group
     \<lparr>file_writer := Some [], future_message_indices := [5],
      sst := example_sst\<lparr>delivered_num := (\<lambda>row col. 2)\<rparr>\<rparr>"

text \<open>
  The head of \<open>pending_sends[0]\<close> has index \<open>2^30 + 4\<close>, this node has received its own
  messages up to index \<open>2^30 + 3\<close>, and every node has delivered up to \<open>2^31 - 2\<close>.
\<close>

definition wrapped_floor_group :: MulticastGroup where
  "wrapped_floor_group = example_group
     \<lparr>pending_sends := [[example_message 0 1073741828]],
      future_message_indices := [1073741829],
      sst := example_sst\<lparr>num_received := (\<lambda>row col. 1073741827),
                          delivered_num := (\<lambda>row col. 2147483646)\<rparr>\<rparr>"

text \<open>
  This node is sending its message of index \<open>2^30\<close>; it has received \<open>2^30\<close> messages of
  its own and \<open>2^30 + 1\<close> of the other sender, and \<open>seq_num\<close> is \<open>2^31 - 1\<close>.
\<close>

definition seq_stall_group :: MulticastGroup where
  "seq_stall_group = example_group
     \<lparr>current_sends := [Some (example_message 0 1073741824)],
      future_message_indices := [1073741825],
      sst := example_sst\<lparr>num_received := (\<lambda>row col. if col = 0 then 1073741823 else 1073741824),
                          seq_num := (\<lambda>row col. 2147483647)\<rparr>\<rparr>"

section \<open>Auxiliary notions\<close>

text \<open>
  The calls into the host that the delivery of one message is expected to make: none for
  a zero-size placeholder, the RPC callback for a cooked message, the stability callback
  for a raw one.
\<close>

definition delivery_callbacks :: "MulticastGroup \<Rightarrow> subgroup_id \<Rightarrow> Message \<Rightarrow> effect list" where
  "delivery_callbacks grp g msg =
     (if msg_size msg = 0 then []
      else if cooked_send (buffer_header (message_buffer msg))
      then [Rpc_callback (members grp ! sender_rank msg)
              ((msg_size msg + 2 ^ 64 - header_size (buffer_header (message_buffer msg))) mod 2 ^ 64)]
      else [Global_stability_callback g (sender_rank msg) (index msg) (msg_size msg)])"

text \<open>Two states of one group agree on the view and on the place of this node in it.\<close>

definition same_config :: "MulticastGroup \<Rightarrow> MulticastGroup \<Rightarrow> bool" where
  "same_config grp grp' \<longleftrightarrow>
     members grp' = members grp \<and> member_index grp' = member_index grp
     \<and> subgroup_membership grp' = subgroup_membership grp
     \<and> node_id_to_sst_index grp' = node_id_to_sst_index grp
     \<and> subgroup_to_shard_n_index grp' = subgroup_to_shard_n_index grp"

text \<open>
  A zero-size placeholder, and a state in which node 0 has received message 0 of rank 1
  (sequence number 1) and a placeholder of rank 0 for index 1 (sequence number 2), with
  \<open>stable_num\<close> at 2 in every row.
\<close>

definition placeholder_message :: "nat \<Rightarrow> int \<Rightarrow> Message" where
  "placeholder_message r i =
     \<lparr>sender_rank = r, index = i, msg_size = 0, message_buffer = new_MessageBuffer 0\<rparr>"

definition stable_group :: MulticastGroup where
  "stable_group = example_group
     \<lparr>locally_stable_messages := (\<lambda>g. [])(0 := [(2, placeholder_message 0 1), (1, example_message 1 0)]),
      sst := example_sst\<lparr>num_received := (\<lambda>row col. if col = 0 then 1 else 0),
                          seq_num := (\<lambda>row col. 2), stable_num := (\<lambda>row col. 2),
                          delivered_num := (\<lambda>row col. 0)\<rparr>\<rparr>"

text \<open>
  Persistence is on; node 0 has received its own messages 0 and 1 and message 0 of rank 1,
  everything up to sequence number 2 is delivered, and message 1 of rank 1 is being
  received (sequence number \<open>1 * 2 + 1 = 3\<close>).
\<close>

definition receiving_group :: MulticastGroup where
  "receiving_group = example_group
     \<lparr>file_writer := Some [],
      current_receives := [((0, 3), \<lparr>sender_rank = 1, index = 1, msg_size = 73,
                                      message_buffer = new_MessageBuffer 4096\<rparr>)],
      sst := example_sst\<lparr>num_received := (\<lambda>row col. if col = 0 then 1 else 0),
                          seq_num := (\<lambda>row col. 2), stable_num := (\<lambda>row col. 2),
                          delivered_num := (\<lambda>row col. 2)\<rparr>\<rparr>"

text \<open>
  The same view with two subgroups, whose shards are \<open>[0, 1]\<close> and \<open>[0, 2]\<close>, and
  persistence: the arguments of the constructor, the group after its construction, and an
  old group of that view, wedged, that holds one non-persistent message in each subgroup.
\<close>

definition two_subgroup_params :: group_params where
  "two_subgroup_params = \<lparr>gp_members = [0, 1, 2], gp_my_node_id = 0, gp_max_payload_size = 1024,
     gp_block_size = 4096, gp_window_size = 4, gp_persistent = True, gp_sizeof_header = 9,
     gp_num_subgroups = 2, gp_num_shards = (\<lambda>g. 1),
     gp_subgroup_membership = (\<lambda>g j. if g = 0 then [0, 1] else [0, 2]),
     gp_already_failed = [], gp_sst = example_sst, gp_predicates = [], gp_create_ok = (\<lambda>n. True)\<rparr>"

definition two_subgroup_group :: MulticastGroup where
  "two_subgroup_group = example_group
     \<lparr>num_subgroups := 2,
      subgroup_membership := (\<lambda>g j. if g = 0 then [0, 1] else [0, 2]),
      subgroup_to_shard_n_index := [(1, 0, 0), (0, 0, 0)],
      subgroup_to_num_received_offset := [(1, 2), (0, 0)],
      subgroup_to_rdmc_group := [(1, 2), (0, 0)],
      rdmc_group_num_offset := 4,
      future_message_indices := [0, 0], next_sends := [None, None], pending_sends := [[], []],
      current_sends := [None, None], next_message_to_deliver := [0, 0],
      free_message_buffers := (\<lambda>g. [])(0 := replicate 8 (new_MessageBuffer 4096),
                                         1 := replicate 8 (new_MessageBuffer 4096)),
      file_writer := Some []\<rparr>"

definition handover_old_group :: MulticastGroup where
  "handover_old_group = two_subgroup_group
     \<lparr>thread_shutdown := True,
      non_persistent_messages := (\<lambda>g. [])(0 := [(0, example_message 0 0)],
                                            1 := [(0, example_message 0 0)])\<rparr>"



section \<open>Properties of the send-side entry points\<close>

text \<open>
  C9. \<open>send\<close> returns false exactly when the shutdown flag is set or the transport groups
  were not created. When the groups were not created, \<open>send\<close> returns false and
  \<open>get_sendbuffer_ptr\<close> returns the null pointer, whatever their arguments, and the group
  is unchanged. When \<open>send\<close> returns true it has appended the staged message of
  \<open>next_sends[g]\<close> to \<open>pending_sends[g]\<close>, emptied \<open>next_sends[g]\<close> and notified the sender
  loop; and it does return true whenever neither flag stops it and a message is staged.
\<close>

theorem send_returns_false_iff:
  "((\<exists>grp'. send grp g = Inr (False, grp')) \<longleftrightarrow> (thread_shutdown grp \<or> \<not> rdmc_groups_created grp))
   \<and> (\<not> rdmc_groups_created grp \<longrightarrow>
        send grp g = Inr (False, grp) \<and> get_sendbuffer_ptr grp g' n p c = Inr (None, grp))
   \<and> (\<forall>grp'. send grp g = Inr (True, grp') \<longrightarrow>
        (\<exists>msg. next_sends grp ! g = Some msg
           \<and> grp' = grp\<lparr>pending_sends := (pending_sends grp)[g := pending_sends grp ! g @ [msg]],
                        next_sends := (next_sends grp)[g := None],
                        trace := trace grp @ [Sender_cv_notify_all]\<rparr>))
   \<and> (\<not> thread_shutdown grp \<and> rdmc_groups_created grp \<and> g < length (next_sends grp)
        \<and> g < length (pending_sends grp) \<and> next_sends grp ! g \<noteq> None
        \<longrightarrow> (\<exists>grp'. send grp g = Inr (True, grp')))"
  by (auto simp: send_def get_sendbuffer_ptr_def split: option.splits if_splits)

theorem send_returns_false_iff_witness:
  "send (example_group\<lparr>rdmc_groups_created := False\<rparr>) 0
     = Inr (False, example_group\<lparr>rdmc_groups_created := False\<rparr>)
   \<and> get_sendbuffer_ptr (example_group\<lparr>rdmc_groups_created := False\<rparr>) 0 64 0 False
     = Inr (None, example_group\<lparr>rdmc_groups_created := False\<rparr>)
   \<and> send (example_group\<lparr>next_sends := [Some (example_message 0 0)]\<rparr>) 0
     = Inr (True, example_group\<lparr>next_sends := [None], pending_sends := [[example_message 0 0]],
                   trace := [Sender_cv_notify_all]\<rparr>)
   \<and> send (example_group\<lparr>thread_shutdown := True\<rparr>) 0
     = Inr (False, example_group\<lparr>thread_shutdown := True\<rparr>)"
  using send_returns_false_iff [of "example_group\<lparr>rdmc_groups_created := False\<rparr>" 0 0 64 0 False]
        send_returns_false_iff [of "example_group\<lparr>next_sends := [Some (example_message 0 0)]\<rparr>" 0 0 64 0 False]
        send_returns_false_iff [of "example_group\<lparr>thread_shutdown := True\<rparr>" 0 0 64 0 False]
  by (simp add: example_group_def send_def)

text \<open>
  C10. A call of \<open>get_sendbuffer_ptr\<close> with payload size 0, on a group whose transport
  groups were created, whose window is open, whose pool is not empty and which is not
  shutting down, is not rejected: the returned pointer is not null and lies
  \<open>sizeof(header)\<close> bytes into the buffer, and the message staged in \<open>next_sends[g]\<close> has
  size \<open>max_msg_size\<close>, the next free index and a header of size \<open>sizeof(header)\<close>.
\<close>

theorem get_sendbuffer_ptr_zero_payload:
  assumes "rdmc_groups_created grp" and "\<not> thread_shutdown grp"
    and "free_message_buffers grp g \<noteq> []"
    and "g < length (future_message_indices grp)" and "g < length (next_sends grp)"
    and "\<forall>m \<in> set (shard_members_of grp g).
           \<not> delivered_num (sst grp) (sst_index grp m) g
               < window_floor grp g (future_message_indices grp ! g)"
  shows "\<exists>grp' msg. get_sendbuffer_ptr grp g 0 pause cooked = Inr (Some (sizeof_header grp), grp')
           \<and> next_sends grp' ! g = Some msg \<and> msg_size msg = max_msg_size grp
           \<and> index msg = future_message_indices grp ! g
           \<and> header_size (buffer_header (message_buffer msg)) = sizeof_header grp"
  using assms by (simp add: get_sendbuffer_ptr_def Let_def)

theorem get_sendbuffer_ptr_zero_payload_witness:
  "\<exists>grp' msg. get_sendbuffer_ptr example_group 0 0 0 False
              = Inr (Some (sizeof_header example_group), grp')
           \<and> next_sends grp' ! 0 = Some msg \<and> msg_size msg = max_msg_size example_group
           \<and> index msg = future_message_indices example_group ! 0
           \<and> header_size (buffer_header (message_buffer msg)) = sizeof_header example_group"
  by (rule get_sendbuffer_ptr_zero_payload)
     (simp_all add: example_group_def example_sst_def shard_members_of_def shard_n_index_def
      map_find_def window_floor_def to_int32_def sst_index_def map_at_def)

text \<open>Evaluation of the model on concrete states.\<close>

lemmas eval_defs = rdmc_receive_handler_def bump_num_received_def move_to_locally_stable_def
  update_seq_num_def new_seq_num_def received_cells_def min_element_def to_int32_def sst_put_def
  get_shard_sst_indices_def shard_members_of_def shard_n_index_def map_find_def sst_index_def
  map_at_def map_assign_def map_erase_def map_emplace_def window_floor_def Let_def

lemma upt_0_2: "[0 ..< 2] = [0, Suc 0]"
  by (simp add: upt_rec)

lemmas example_defs = example_group_def example_sst_def example_message_def
  example_closure_def example_header_def

lemma to_int32_id: "- 2147483648 \<le> x \<Longrightarrow> x < 2147483648 \<Longrightarrow> to_int32 x = x"
  by (simp add: to_int32_def)

text \<open>
  C2, as stated, fails: with persistence enabled and \<open>persisted_num\<close> of node 1 at \<open>-1\<close>,
  below the bound \<open>(5 - 4) * 2 + 0 = 2\<close>, \<open>get_sendbuffer_ptr\<close> still hands out a buffer.
\<close>

theorem get_sendbuffer_ptr_ignores_persisted_num:
  "map_sum id fst (get_sendbuffer_ptr persisted_lag_group 0 64 0 False) = Inr (Some 9)
   \<and> file_writer persisted_lag_group \<noteq> None
   \<and> 1 \<in> set (shard_members_of persisted_lag_group 0)
   \<and> persisted_num (sst persisted_lag_group) (sst_index persisted_lag_group 1) 0
       < (future_message_indices persisted_lag_group ! 0 - int (window_size persisted_lag_group))
           * int (length (shard_members_of persisted_lag_group 0))
         + int (snd (shard_n_index persisted_lag_group 0))"
  by (simp add: persisted_lag_group_def example_defs get_sendbuffer_ptr_def eval_defs)

text \<open>
  C2, amended. Whenever \<open>get_sendbuffer_ptr\<close> returns a pointer and the bound
  \<open>(future_message_indices[g] - window_size) * S + shard_index\<close> lies in the range of an
  \<^verbatim>\<open>int\<close>, \<open>delivered_num[m,g]\<close> of every member \<open>m\<close> of the shard is at least that
  bound; and the result of the call depends neither on \<open>persisted_num\<close> nor on whether
  persistence is enabled.
\<close>

theorem get_sendbuffer_ptr_window:
  "(\<forall>ptr grp'. get_sendbuffer_ptr grp g n p c = Inr (Some ptr, grp')
       \<and> - 2147483648 \<le> (future_message_indices grp ! g - int (window_size grp))
                              * int (length (shard_members_of grp g)) + int (snd (shard_n_index grp g))
       \<and> (future_message_indices grp ! g - int (window_size grp))
             * int (length (shard_members_of grp g)) + int (snd (shard_n_index grp g)) < 2147483648
     \<longrightarrow>
      (\<forall>m \<in> set (shard_members_of grp g).
         delivered_num (sst grp) (sst_index grp m) g
           \<ge> (future_message_indices grp ! g - int (window_size grp))
                 * int (length (shard_members_of grp g)) + int (snd (shard_n_index grp g))))
   \<and> map_sum id fst (get_sendbuffer_ptr
          (grp\<lparr>sst := (sst grp)\<lparr>persisted_num := pn\<rparr>, file_writer := fw\<rparr>) g n p c)
       = map_sum id fst (get_sendbuffer_ptr grp g n p c)"
proof (intro conjI allI impI ballI)
  fix ptr grp' m
  assume a: "get_sendbuffer_ptr grp g n p c = Inr (Some ptr, grp')
       \<and> - 2147483648 \<le> (future_message_indices grp ! g - int (window_size grp))
                              * int (length (shard_members_of grp g)) + int (snd (shard_n_index grp g))
       \<and> (future_message_indices grp ! g - int (window_size grp))
             * int (length (shard_members_of grp g)) + int (snd (shard_n_index grp g)) < 2147483648"
    and m: "m \<in> set (shard_members_of grp g)"
  from a have "window_floor grp g (future_message_indices grp ! g)
      = (future_message_indices grp ! g - int (window_size grp))
          * int (length (shard_members_of grp g)) + int (snd (shard_n_index grp g))"
    unfolding window_floor_def by (intro to_int32_id) simp_all
  moreover from a m have "\<not> delivered_num (sst grp) (sst_index grp m) g
      < window_floor grp g (future_message_indices grp ! g)"
    by (auto simp: get_sendbuffer_ptr_def Let_def split: if_splits)
  ultimately show "delivered_num (sst grp) (sst_index grp m) g
           \<ge> (future_message_indices grp ! g - int (window_size grp))
                 * int (length (shard_members_of grp g)) + int (snd (shard_n_index grp g))"
    by simp
next
  show "map_sum id fst (get_sendbuffer_ptr
          (grp\<lparr>sst := (sst grp)\<lparr>persisted_num := pn\<rparr>, file_writer := fw\<rparr>) g n p c)
       = map_sum id fst (get_sendbuffer_ptr grp g n p c)"
    by (auto simp: get_sendbuffer_ptr_def Let_def window_floor_def shard_members_of_def
        shard_n_index_def sst_index_def split: if_splits)
qed

theorem get_sendbuffer_ptr_window_witness:
  "map_sum id fst (get_sendbuffer_ptr persisted_lag_group 0 64 0 False) = Inr (Some 9)
   \<and> shard_members_of persisted_lag_group 0 = [0, 1]
   \<and> delivered_num (sst persisted_lag_group) (sst_index persisted_lag_group 0) 0 \<ge> 2
   \<and> delivered_num (sst persisted_lag_group) (sst_index persisted_lag_group 1) 0 \<ge> 2"
  using get_sendbuffer_ptr_window [of persisted_lag_group 0 64 0 False]
  by (simp add: persisted_lag_group_def example_defs get_sendbuffer_ptr_def eval_defs)

section \<open>Properties of the sender loop\<close>

text \<open>
  C3 does not hold of the code. The head of \<open>pending_sends[0]\<close> has index \<open>2^30 + 4\<close>,
  so the bound \<open>(index - window_size) * S + shard_index\<close> is \<open>2^31\<close>; node 1 has
  delivered only up to \<open>2^31 - 2\<close>, below the bound, and the loop dispatches the message:
  the check compares with the bound cast to \<^verbatim>\<open>int\<close>, which is \<open>-2^31\<close>.
\<close>

theorem send_loop_dispatches_below_floor:
  "send_loop_iteration True wrapped_floor_group
     = Inr (Loop_sent 0 (wrapped_floor_group
              \<lparr>subgroup_to_send := 0,
               current_sends := [Some (example_message 0 1073741828)],
               trace := [Rdmc_send 0 73],
               pending_sends := [[]]\<rparr>))
   \<and> 1 \<in> set (shard_members_of wrapped_floor_group 0)
   \<and> delivered_num (sst wrapped_floor_group) (sst_index wrapped_floor_group 1) 0
       < (index (hd (pending_sends wrapped_floor_group ! 0)) - int (window_size wrapped_floor_group))
           * int (length (shard_members_of wrapped_floor_group 0))
         + int (snd (shard_n_index wrapped_floor_group 0))"
  by (simp add: wrapped_floor_group_def example_defs send_loop_iteration_def should_send_def
      should_send_to_subgroup_def eval_defs)

section \<open>Properties of the receive path\<close>

lemma get_shard_sst_indices_update:
  "get_shard_sst_indices (grp\<lparr>sst := t\<rparr>) g = get_shard_sst_indices grp g"
  "get_shard_sst_indices (grp\<lparr>trace := tr\<rparr>) g = get_shard_sst_indices grp g"
  by (simp_all add: get_shard_sst_indices_def shard_members_of_def shard_n_index_def sst_index_def)

text \<open>
  C4 does not hold of the code. After the completion both senders stand at \<open>2^30\<close>
  received messages, so \<open>new_seq_num = (2^30 + 1) * 2 + 0 - 1 = 2^31 + 1\<close>, strictly greater
  than \<open>seq_num = 2^31 - 1\<close>; the handler tests \<^verbatim>\<open>(int)new_seq_num\<close>, which is
  negative, leaves \<open>seq_num\<close> as it is and publishes only \<open>num_received\<close>.
\<close>

theorem receive_handler_seq_num_stalls:
  "\<not> isl (rdmc_receive_handler (example_closure 0) example_header seq_stall_group)
   \<and> new_seq_num (example_closure 0)
        (projr (rdmc_receive_handler (example_closure 0) example_header seq_stall_group))
       = 2147483649
   \<and> seq_num (sst seq_stall_group) 0 0 = 2147483647
   \<and> seq_num (sst (projr (rdmc_receive_handler (example_closure 0) example_header seq_stall_group))) 0 0
       = 2147483647
   \<and> trace (projr (rdmc_receive_handler (example_closure 0) example_header seq_stall_group))
       = [Sst_put [0, 1] Num_received 0]"
  by (simp add: seq_stall_group_def example_defs eval_defs upt_0_2)

section \<open>Properties of the delivery trigger\<close>

lemma min_loop_Min: "min_loop m vs = Min (insert m (set vs))"
proof (induction vs arbitrary: m)
  case Nil
  then show ?case by simp
next
  case (Cons v vs)
  have "Min (insert (if v < m then v else m) (set vs)) = Min (insert m (insert v (set vs)))"
    by (cases "set vs = {}") (auto simp: min_def Min_insert2 Min.insert_remove insert_commute)
  then show ?case by (simp add: Cons.IH)
qed

lemma shard_min_Min:
  "rows \<noteq> [] \<Longrightarrow> shard_min column rows = Min (column ` set rows)"
  by (cases rows) (simp_all add: shard_min_def min_loop_Min)

lemma map_begin_least:
  "map_begin m = Some (q, v) \<Longrightarrow> (q, v) \<in> set m \<and> (\<forall>p \<in> set m. q \<le> fst p)"
proof (induction m arbitrary: q v)
  case Nil
  then show ?case by simp
next
  case (Cons p m)
  show ?case
  proof (cases "map_begin m")
    case None
    then have "m = []" by (cases m) (auto split: option.splits if_splits)
    with Cons.prems None show ?thesis by auto
  next
    case (Some r)
    obtain q' v' where r: "r = (q', v')" by (cases r)
    from Cons.IH [of q' v'] Some r have ih: "(q', v') \<in> set m \<and> (\<forall>p \<in> set m. q' \<le> fst p)"
      by simp
    from Cons.prems Some r ih show ?thesis
      by (auto split: if_splits)
  qed
qed

lemma map_find_erase: "map_find k (map_erase k m) = None"
  by (simp add: map_find_def map_erase_def map_of_eq_None_iff image_iff)


lemma deliver_message_effect:
  assumes "msg_size msg > 0 \<longrightarrow> sender_rank msg < length (members grp)"
  shows "\<exists>grp'. deliver_message msg g grp = Inr grp'
           \<and> trace grp' = trace grp @ delivery_callbacks grp g msg
           \<and> sst grp' = sst grp
           \<and> locally_stable_messages grp' = locally_stable_messages grp
           \<and> same_config grp grp'"
  using assms
  by (auto simp: deliver_message_def delivery_callbacks_def Let_def same_config_def
      split: option.splits)

text \<open>
  C5. When \<open>locally_stable_messages[g]\<close> has a head entry, which is the entry with the
  least key \<open>q\<close>, and \<open>q\<close> is at most the minimum of \<open>stable_num\<close> over the rows of the
  shard, then one run of the delivery trigger delivers that one message: it makes at most
  one call into the host (none for a zero-size placeholder), sets \<open>delivered_num[self,g]\<close>
  to \<open>q\<close>, publishes it to the shard and removes the entry. The sender rank of a message
  with content has to be a position in the member list, which the trigger reads.
\<close>

theorem delivery_trig_delivers_head:
  assumes head: "map_begin (locally_stable_messages grp g) = Some (q, msg)"
    and shard: "shard_members \<noteq> []"
    and stable: "q \<le> shard_min (\<lambda>row. stable_num (sst grp) row g) (shard_rows grp shard_members)"
    and rank: "msg_size msg > 0 \<longrightarrow> sender_rank msg < length (members grp)"
  shows "\<exists>grp'. delivery_trig g shard_members grp = Inr grp'
           \<and> delivered_num (sst grp') =
                (delivered_num (sst grp))(member_index grp :=
                   (delivered_num (sst grp) (member_index grp))(g := q))
           \<and> locally_stable_messages grp' =
                (locally_stable_messages grp)(g := map_erase q (locally_stable_messages grp g))
           \<and> map_find q (locally_stable_messages grp' g) = None
           \<and> trace grp' = trace grp @ delivery_callbacks grp g msg
                @ [Sst_put (get_shard_sst_indices grp g) Delivered_num g]
           \<and> (msg_size msg = 0 \<longrightarrow> delivery_callbacks grp g msg = [])
           \<and> length (delivery_callbacks grp g msg) \<le> 1
           \<and> (\<forall>p \<in> set (locally_stable_messages grp g). q \<le> fst p)
           \<and> shard_min (\<lambda>row. stable_num (sst grp) row g) (shard_rows grp shard_members)
                = Min ((\<lambda>row. stable_num (sst grp) row g) ` set (shard_rows grp shard_members))"
proof -
  from deliver_message_effect [OF rank, of g] obtain grp1
    where d: "deliver_message msg g grp = Inr grp1"
      and tr: "trace grp1 = trace grp @ delivery_callbacks grp g msg"
      and st: "sst grp1 = sst grp"
      and ls: "locally_stable_messages grp1 = locally_stable_messages grp"
      and cf: "same_config grp grp1"
    by blast
  have rows: "get_shard_sst_indices grp1 g = get_shard_sst_indices grp g"
    using cf by (simp add: same_config_def get_shard_sst_indices_def shard_members_of_def
        shard_n_index_def sst_index_def)
  have mi: "member_index grp1 = member_index grp" using cf by (simp add: same_config_def)
  have least: "\<forall>p \<in> set (locally_stable_messages grp g). q \<le> fst p"
    using map_begin_least [OF head] by simp
  have mn: "shard_min (\<lambda>row. stable_num (sst grp) row g) (shard_rows grp shard_members)
                = Min ((\<lambda>row. stable_num (sst grp) row g) ` set (shard_rows grp shard_members))"
    using shard by (intro shard_min_Min) (simp add: shard_rows_def)
  define grp' where "grp' =
      (sst_put (grp1\<lparr>sst := (sst grp1)\<lparr>delivered_num := (delivered_num (sst grp1))
              (member_index grp1 := (delivered_num (sst grp1) (member_index grp1))(g := q))\<rparr>\<rparr>)
              g Delivered_num g)
           \<lparr>locally_stable_messages := (locally_stable_messages grp1)
              (g := map_erase q (locally_stable_messages grp1 g))\<rparr>"
  have run: "delivery_trig g shard_members grp = Inr grp'"
    using head shard stable d
    by (simp add: delivery_trig_def Let_def sst_put_def grp'_def)
  have c1: "delivered_num (sst grp') =
                (delivered_num (sst grp))(member_index grp :=
                   (delivered_num (sst grp) (member_index grp))(g := q))"
    by (simp add: grp'_def sst_put_def st mi)
  have c2: "locally_stable_messages grp' =
                (locally_stable_messages grp)(g := map_erase q (locally_stable_messages grp g))"
    by (simp add: grp'_def sst_put_def ls)
  have c3: "map_find q (locally_stable_messages grp' g) = None"
    by (simp add: c2 map_find_erase)
  have c4: "trace grp' = trace grp @ delivery_callbacks grp g msg
                @ [Sst_put (get_shard_sst_indices grp g) Delivered_num g]"
    by (simp add: grp'_def sst_put_def tr get_shard_sst_indices_update rows)
  have c5: "msg_size msg = 0 \<longrightarrow> delivery_callbacks grp g msg = []"
    and c6: "length (delivery_callbacks grp g msg) \<le> 1"
    by (simp_all add: delivery_callbacks_def)
  show ?thesis
    by (intro exI [of _ grp'] conjI run c1 c2 c3 c4 c5 c6 least mn)
qed


theorem delivery_trig_delivers_head_witness:
  "(\<exists>grp'. delivery_trig 0 [0, 1] stable_group = Inr grp'
       \<and> delivered_num (sst grp') 0 0 = 1
       \<and> locally_stable_messages grp' 0 = [(2, placeholder_message 0 1)]
       \<and> trace grp' = [Global_stability_callback 0 1 0 73, Sst_put [0, 1] Delivered_num 0])
   \<and> (\<exists>grp'. delivery_trig 0 [0, 1]
              (stable_group\<lparr>locally_stable_messages := (\<lambda>g. [])(0 := [(2, placeholder_message 0 1)])\<rparr>)
            = Inr grp'
       \<and> delivered_num (sst grp') 0 0 = 2
       \<and> locally_stable_messages grp' 0 = []
       \<and> trace grp' = [Sst_put [0, 1] Delivered_num 0])"
proof (rule conjI)
  have "\<exists>grp'. delivery_trig 0 [0, 1] stable_group = Inr grp'
           \<and> delivered_num (sst grp') =
                (delivered_num (sst stable_group))(member_index stable_group :=
                   (delivered_num (sst stable_group) (member_index stable_group))(0 := 1))
           \<and> locally_stable_messages grp' =
                (locally_stable_messages stable_group)
                  (0 := map_erase 1 (locally_stable_messages stable_group 0))
           \<and> map_find 1 (locally_stable_messages grp' 0) = None
           \<and> trace grp' = trace stable_group @ delivery_callbacks stable_group 0 (example_message 1 0)
                @ [Sst_put (get_shard_sst_indices stable_group 0) Delivered_num 0]
           \<and> (msg_size (example_message 1 0) = 0 \<longrightarrow>
                delivery_callbacks stable_group 0 (example_message 1 0) = [])
           \<and> length (delivery_callbacks stable_group 0 (example_message 1 0)) \<le> 1
           \<and> (\<forall>p \<in> set (locally_stable_messages stable_group 0). 1 \<le> fst p)
           \<and> shard_min (\<lambda>row. stable_num (sst stable_group) row 0) (shard_rows stable_group [0, 1])
                = Min ((\<lambda>row. stable_num (sst stable_group) row 0) ` set (shard_rows stable_group [0, 1]))"
    by (rule delivery_trig_delivers_head)
       (simp_all add: stable_group_def example_defs placeholder_message_def shard_min_def
          shard_rows_def)
  then show "\<exists>grp'. delivery_trig 0 [0, 1] stable_group = Inr grp'
       \<and> delivered_num (sst grp') 0 0 = 1
       \<and> locally_stable_messages grp' 0 = [(2, placeholder_message 0 1)]
       \<and> trace grp' = [Global_stability_callback 0 1 0 73, Sst_put [0, 1] Delivered_num 0]"
    by (auto simp: stable_group_def example_defs delivery_callbacks_def eval_defs)
next
  let ?grp = "stable_group\<lparr>locally_stable_messages := (\<lambda>g. [])(0 := [(2, placeholder_message 0 1)])\<rparr>"
  have "\<exists>grp'. delivery_trig 0 [0, 1] ?grp = Inr grp'
           \<and> delivered_num (sst grp') =
                (delivered_num (sst ?grp))(member_index ?grp :=
                   (delivered_num (sst ?grp) (member_index ?grp))(0 := 2))
           \<and> locally_stable_messages grp' =
                (locally_stable_messages ?grp)
                  (0 := map_erase 2 (locally_stable_messages ?grp 0))
           \<and> map_find 2 (locally_stable_messages grp' 0) = None
           \<and> trace grp' = trace ?grp @ delivery_callbacks ?grp 0 (placeholder_message 0 1)
                @ [Sst_put (get_shard_sst_indices ?grp 0) Delivered_num 0]
           \<and> (msg_size (placeholder_message 0 1) = 0 \<longrightarrow>
                delivery_callbacks ?grp 0 (placeholder_message 0 1) = [])
           \<and> length (delivery_callbacks ?grp 0 (placeholder_message 0 1)) \<le> 1
           \<and> (\<forall>p \<in> set (locally_stable_messages ?grp 0). 2 \<le> fst p)
           \<and> shard_min (\<lambda>row. stable_num (sst ?grp) row 0) (shard_rows ?grp [0, 1])
                = Min ((\<lambda>row. stable_num (sst ?grp) row 0) ` set (shard_rows ?grp [0, 1]))"
    by (rule delivery_trig_delivers_head)
       (simp_all add: stable_group_def example_defs placeholder_message_def shard_min_def
          shard_rows_def)
  then show "\<exists>grp'. delivery_trig 0 [0, 1] ?grp = Inr grp'
       \<and> delivered_num (sst grp') 0 0 = 2
       \<and> locally_stable_messages grp' 0 = []
       \<and> trace grp' = [Sst_put [0, 1] Delivered_num 0]"
    by (auto simp: stable_group_def example_defs delivery_callbacks_def eval_defs
        placeholder_message_def)
qed

section \<open>Sequence numbers, handover and wedge on concrete states\<close>

lemmas run_defs = step_def predicate_step_def stability_trig_def delivery_trig_def
  deliver_message_def file_writer_completion_def file_written_callback_def sst_write_def
  shard_min_def shard_rows_def num_members_def own_header_def receive_handler_plus_notify_def
  receive_destination_def

text \<open>
  C1 at a view of three members whose shard has two senders: the message of rank 1 with
  index 1 enters \<open>locally_stable_messages\<close> under \<open>1 * 2 + 1 = 3\<close> and is delivered as
  sequence number 3, \<open>deliver_message\<close> files it in \<open>non_persistent_messages\<close> under
  \<open>1 * 3 + 1 = 4\<close>, and the completion callback of the writer publishes
  \<open>persisted_num = 4\<close>.
\<close>

theorem sequence_number_by_num_members:
  "locally_stable_messages (projr (run receiving_group [Rdmc_completion 1 example_header])) 0
     = [(3, example_message 1 1)]
   \<and> delivered_num (sst (projr (run receiving_group
         [Rdmc_completion 1 example_header, Remote_write 1 Seq_num 0 3, Predicate_trigger 1,
          Remote_write 1 Stable_num 0 3, Predicate_trigger 2]))) 0 0 = 3
   \<and> non_persistent_messages (projr (run receiving_group
         [Rdmc_completion 1 example_header, Remote_write 1 Seq_num 0 3, Predicate_trigger 1,
          Remote_write 1 Stable_num 0 3, Predicate_trigger 2])) 0
     = [(4, example_message 1 1)]
   \<and> persisted_num (sst (projr (run receiving_group
         [Rdmc_completion 1 example_header, Remote_write 1 Seq_num 0 3, Predicate_trigger 1,
          Remote_write 1 Stable_num 0 3, Predicate_trigger 2, File_written]))) 0 0 = 4"
  by (simp add: receiving_group_def example_defs run_defs eval_defs upt_0_2 new_MessageBuffer_def
      empty_header_def)


text \<open>
  C7 at an old group with one non-persistent message in each of two subgroups: the
  handover loop transfers the message of subgroup 0, clears the map of the old group for
  every subgroup, and the new group ends without the message of subgroup 1.
\<close>

theorem handover_drops_non_persistent:
  "non_persistent_messages handover_old_group 0 = [(0, example_message 0 0)]
   \<and> non_persistent_messages handover_old_group 1 = [(0, example_message 0 0)]
   \<and> \<not> isl (requeue_old_sends two_subgroup_group handover_old_group)
   \<and> non_persistent_messages (fst (projr (requeue_old_sends two_subgroup_group handover_old_group))) 0
       = [(0, example_message 0 0)]
   \<and> non_persistent_messages (fst (projr (requeue_old_sends two_subgroup_group handover_old_group))) 1
       = []
   \<and> non_persistent_messages (snd (projr (requeue_old_sends two_subgroup_group handover_old_group))) 1
       = []"
  by (simp add: handover_old_group_def two_subgroup_group_def example_defs requeue_old_sends_def
      requeue_subgroup_def convert_msg_def emplace_non_persistent_def push_pending_def
      map_entries_def eval_defs)

lemma upt_0_3: "[0 ..< 3] = [0, Suc 0, 2]"
  by (simp add: upt_rec)

text \<open>
  C8 at a node of two subgroups: the constructor registers six predicates and creates the
  transport groups 0 to 3; \<open>wedge\<close> removes the three predicates of subgroup 1, whose handles
  are the ones the class still holds, and destroys the groups 4, 5 and 6. The predicates of
  subgroup 0 and the four transport groups of the view stay registered.
\<close>

theorem wedge_leaves_predicates_and_groups:
  "predicates (projr (new_group two_subgroup_params))
     = [(1, Stability_pred, 0), (2, Delivery_pred, 0), (3, Sender_pred, 0),
        (4, Stability_pred, 1), (5, Delivery_pred, 1), (6, Sender_pred, 1)]
   \<and> map fst (rdmc_groups (projr (new_group two_subgroup_params))) = [0, 1, 2, 3]
   \<and> predicates (wedge (projr (new_group two_subgroup_params)))
     = [(1, Stability_pred, 0), (2, Delivery_pred, 0), (3, Sender_pred, 0)]
   \<and> map fst (rdmc_groups (wedge (projr (new_group two_subgroup_params)))) = [0, 1, 2, 3]
   \<and> trace (wedge (projr (new_group two_subgroup_params)))
     = [Rdmc_destroy_group 4, Rdmc_destroy_group 5, Rdmc_destroy_group 6,
        Sender_cv_notify_all, Sender_thread_join]"
  by (simp add: two_subgroup_params_def new_group_def find_shards_def fill_free_message_buffers_def
      initialize_sst_row_def create_groups_unless_failed_def create_rdmc_groups_def
      register_predicates_def register_subgroup_predicates_def predicates_insert_def
      fresh_handle_def predicates_remove_def wedge_def destroy_group_def num_members_def
      map_entries_def map_assign_def map_erase_def map_find_def shard_n_index_def
      compute_max_msg_size_def Let_def upt_0_2 upt_0_3 example_sst_def)

section \<open>Monotonicity of the counters\<close>






end
